theory Spec2Isabelle
  imports Complex_Main "HOL-Library.AList" "HOL-Library.Char_ord" "HOL-Library.List_Lexorder"
begin

section \<open>The weighted graph the scripts build\<close>

text \<open>
  Every script of the repository holds its graph in a \<^verbatim>\<open>networkx.Graph\<close>: a dictionary
  of nodes in insertion order and, for each node, a dictionary from neighbour to the
  edge's attributes. The scripts store one attribute, \<^verbatim>\<open>weight\<close>. A Python dictionary
  is an association list here, since \<^verbatim>\<open>G.nodes()\<close> and \<^verbatim>\<open>dict.items()\<close> are
  read in insertion order further down.
\<close>

type_synonym node = string

record graph =
  nodes :: "node list"
  adj :: "node \<Rightarrow> (node \<times> real) list"

definition empty_graph :: graph where
  "empty_graph = \<lparr>nodes = [], adj = (\<lambda>_. [])\<rparr>"

definition add_node :: "graph \<Rightarrow> node \<Rightarrow> graph" where
  "add_node G n = (if n \<in> set (nodes G) then G else G\<lparr>nodes := nodes G @ [n]\<rparr>)"

text \<open>
  \<^verbatim>\<open>G.add_edge(u, v, weight=w)\<close>: both endpoints become nodes when they are new, then
  \<^verbatim>\<open>adj[u][v]\<close> and \<^verbatim>\<open>adj[v][u]\<close> are set to the weight, one after the other. There is
  no test on the endpoints or on the weight.
\<close>

definition add_edge :: "graph \<Rightarrow> node \<Rightarrow> node \<Rightarrow> real \<Rightarrow> graph" where
  "add_edge G u v w =
     (let G1 = add_node (add_node G u) v;
          a1 = (adj G1)(u := AList.update v w (adj G1 u));
          a2 = a1(v := AList.update u w (a1 v))
      in G1\<lparr>adj := a2\<rparr>)"

definition edge_weight :: "graph \<Rightarrow> node \<Rightarrow> node \<Rightarrow> real option" where
  "edge_weight G u v = map_of (adj G u) v"

definition has_edge :: "graph \<Rightarrow> node \<Rightarrow> node \<Rightarrow> bool" where
  "has_edge G u v = (v \<in> fst ` set (adj G u))"

text \<open>
  \<^verbatim>\<open>G.degree()\<close> with no \<^verbatim>\<open>weight\<close> argument, as \<^verbatim>\<open>btl_anal\<close> and script 04 call
  it: the number of entries of the node's adjacency dictionary, a self-loop counted twice.
\<close>

definition degree :: "graph \<Rightarrow> node \<Rightarrow> nat" where
  "degree G n = length (adj G n) + (if n \<in> fst ` set (adj G n) then 1 else 0)"

text \<open>
  The degree in the specification's words, for comparison: the sum of the weights of the
  incident edges.
\<close>

definition spec_weighted_degree :: "graph \<Rightarrow> node \<Rightarrow> real" where
  "spec_weighted_degree G n = sum_list (map snd (adj G n))"

text \<open>
  \<^verbatim>\<open>G.subgraph(ns).copy()\<close>: the nodes of \<open>ns\<close> that \<open>G\<close> has and the edges with both
  endpoints in \<open>ns\<close>, weights kept. \<^verbatim>\<open>networkx\<close> lists the nodes of the copy in the
  order of \<open>G\<close>, unless the kept nodes are fewer than half of the nodes of \<open>G\<close>: then
  it walks the set of the kept nodes, in the order in which the interpreter enumerates that
  set. That order is the parameter \<open>set_order\<close>; an enumeration yields members of the set
  only, which the filter records. The entries of an adjacency dictionary are listed in the
  order of \<open>G\<close>; the scripts read their number and their keys only.
\<close>

definition subgraph :: "(node set \<Rightarrow> node list) \<Rightarrow> graph \<Rightarrow> node set \<Rightarrow> graph" where
  "subgraph set_order G ns =
     (let kept = filter (\<lambda>n. n \<in> ns) (nodes G)
      in \<lparr>nodes = (if 2 * length kept < length (nodes G)
                   then filter (\<lambda>n. n \<in> set kept) (set_order (set kept))
                   else kept),
          adj = (\<lambda>n. if n \<in> ns then filter (\<lambda>(m, w). m \<in> ns) (adj G n) else [])\<rparr>)"

section \<open>Building the graph from the ingested records\<close>

type_synonym edge_record = "node \<times> node \<times> real"

text \<open>
  \<^verbatim>\<open>01_run_louvain.py\<close>, lines 31 to 36 (and \<^verbatim>\<open>louvain_clust_object_out.py\<close>, lines 52
  to 54, through \<^verbatim>\<open>add_weighted_edges_from\<close>): every row of the table is passed to
  \<^verbatim>\<open>add_edge\<close> with its raw score.
\<close>

definition louvain_graph :: "edge_record list \<Rightarrow> graph" where
  "louvain_graph recs = foldl (\<lambda>G (p1, p2, score). add_edge G p1 p2 score) empty_graph recs"

text \<open>
  \<^verbatim>\<open>05_markov_clust_highperformance_object_out.py\<close>, lines 47 to 58 (and
  \<^verbatim>\<open>markov_clustering_highperform_object_out.py\<close>, lines 37 to 48): the score column is
  divided by 1000 first, then the same loop runs. The division is the source's float
  division, taken over the reals.
\<close>

definition normalize_scores :: "edge_record list \<Rightarrow> edge_record list" where
  "normalize_scores recs = map (\<lambda>(p1, p2, score). (p1, p2, score / 1000)) recs"

definition mcl_graph :: "edge_record list \<Rightarrow> graph" where
  "mcl_graph recs =
     foldl (\<lambda>G (p1, p2, score). add_edge G p1 p2 score) empty_graph (normalize_scores recs)"

text \<open>The last record of a list that names the unordered pair \<open>{u, v}\<close>.\<close>

definition last_record :: "edge_record list \<Rightarrow> node \<Rightarrow> node \<Rightarrow> edge_record option" where
  "last_record recs u v =
     find (\<lambda>(a, b, w). (a = u \<and> b = v) \<or> (a = v \<and> b = u)) (rev recs)"

section \<open>Python helpers\<close>

text \<open>
  The exceptions that reach the caller. \<open>LibraryError\<close> stands for any other exception a
  library call raises, with its message.
\<close>

datatype py_error =
  IndexError | KeyError | ZeroDivisionError | UnpicklingError string | LibraryError string

text \<open>
  What a script or a function hands back: a reported failure (the error string that is
  returned or printed before an early \<^verbatim>\<open>return\<close>), an exception that nothing catches,
  or its result.
\<close>

datatype 'a outcome = Failed string | Raised py_error | Done 'a

text \<open>
  \<^verbatim>\<open>sorted(xs, key=key, reverse=reverse)\<close> and \<^verbatim>\<open>list.sort\<close>: a stable sort; with
  \<^verbatim>\<open>reverse=True\<close> the keys descend and equal keys still keep their original order.
\<close>

definition py_sorted :: "('a \<Rightarrow> 'k::linorder) \<Rightarrow> bool \<Rightarrow> 'a list \<Rightarrow> 'a list" where
  "py_sorted key reverse xs =
     (if reverse then rev (sort_key key (rev xs)) else sort_key key xs)"

text \<open>A dictionary comprehension \<^verbatim>\<open>{k: v for ...}\<close>: a later pair replaces an earlier one.\<close>

definition dict_of :: "('k \<times> 'v) list \<Rightarrow> ('k \<rightharpoonup> 'v)" where
  "dict_of kvs = foldl (\<lambda>m (k, v). m(k \<mapsto> v)) Map.empty kvs"

text \<open>\<^verbatim>\<open>d.get(k, default)\<close>.\<close>

definition dict_get :: "('k \<rightharpoonup> 'v) \<Rightarrow> 'k \<Rightarrow> 'v \<Rightarrow> 'v" where
  "dict_get d k dflt = (case d k of None \<Rightarrow> dflt | Some v \<Rightarrow> v)"

text \<open>A name between single quotes, as the f-strings of the error messages write it.\<close>

definition quoted :: "string \<Rightarrow> string" where
  "quoted s = CHR 0x27 # s @ [CHR 0x27]"

text \<open>A loop that appends one result per element and stops at the first exception.\<close>

fun collect :: "('a \<Rightarrow> py_error + 'b) \<Rightarrow> 'a list \<Rightarrow> py_error + 'b list" where
  "collect f [] = Inr []"
| "collect f (x # xs) =
     (case f x of
        Inl e \<Rightarrow> Inl e
      | Inr y \<Rightarrow> (case collect f xs of Inl e \<Rightarrow> Inl e | Inr ys \<Rightarrow> Inr (y # ys)))"

section \<open>Stochastic-flow pipeline: from index clusters to communities\<close>

text \<open>
  \<^verbatim>\<open>mc.run_mcl\<close> and \<^verbatim>\<open>mc.get_clusters\<close> belong to the \<^verbatim>\<open>markov_clustering\<close>
  package. The scripts receive from them a list of tuples of matrix indices,
  \<open>clusters_indices\<close>, which is an argument here; what the scripts do with it is modelled.
\<close>

text \<open>\<^verbatim>\<open>[nodes_list[i] for i in indices]\<close>; an index past the end raises.\<close>

definition members_of :: "node list \<Rightarrow> nat list \<Rightarrow> py_error + node list" where
  "members_of nodes_list indices =
     (if list_all (\<lambda>i. i < length nodes_list) indices
      then Inr (map (\<lambda>i. nodes_list ! i) indices) else Inl IndexError)"

text \<open>
  \<^verbatim>\<open>markov_clustering_highperform_object_out.py\<close>, lines 81 to 92: the index clusters are
  sorted by length, largest first, and each becomes the list of its protein names.
\<close>

definition community_groups :: "node list \<Rightarrow> nat list list \<Rightarrow> py_error + node list list" where
  "community_groups nodes_list clusters_indices =
     collect (members_of nodes_list) (py_sorted length True clusters_indices)"

text \<open>
  \<^verbatim>\<open>05_markov_clust_highperformance_object_out.py\<close>, lines 91 to 100: the same, each
  cluster becoming the set of its protein names.
\<close>

definition mcl_communities :: "node list \<Rightarrow> nat list list \<Rightarrow> py_error + node set list" where
  "mcl_communities nodes_list clusters_indices =
     collect (\<lambda>indices. map_sum id set (members_of nodes_list indices))
       (py_sorted length True clusters_indices)"

section \<open>Locating a protein in the partition\<close>

text \<open>
  The loop \<^verbatim>\<open>for cid, comm in enumerate(communities): for n in comm: node2cluster[n] = cid\<close>
  of \<^verbatim>\<open>btl_anal\<close> (lines 79 to 82) and of script 04 (lines 32 to 35): after the inner
  loop every member of \<open>comm\<close> maps to \<open>cid\<close>.
\<close>

definition build_node2cluster :: "node set list \<Rightarrow> (node \<rightharpoonup> nat)" where
  "build_node2cluster communities =
     foldl (\<lambda>m (cid, comm). (\<lambda>n. if n \<in> comm then Some cid else m n))
       Map.empty (enumerate 0 communities)"

section \<open>Metrics of the target subgraph\<close>

text \<open>
  Betweenness and clustering are computed by \<^verbatim>\<open>networkx\<close>; the repository chooses the
  subgraph, the arguments and the mode. They are parameters: a function from the subgraph
  (and the mode) to the value of each node, or to the exception the call raises (a sample
  of no sources is refused with a \<^verbatim>\<open>ZeroDivisionError\<close>, for one). The values are real
  numbers; a result that holds a NaN has no counterpart here. \<^verbatim>\<open>DataFrame.sort_values\<close>
  of \<^verbatim>\<open>pandas\<close> and the drawing of the two plots (\<^verbatim>\<open>btl_anal\<close>, lines 139 to 204:
  \<^verbatim>\<open>matplotlib\<close>, \<^verbatim>\<open>networkx\<close> and \<^verbatim>\<open>pyvis\<close>, given the subgraph, the target and
  the highlighted candidates) are parameters too.
\<close>

text \<open>
  The two calls of \<^verbatim>\<open>nx.betweenness_centrality\<close>: over all sources, or with
  \<^verbatim>\<open>k\<close> sampled sources and a \<^verbatim>\<open>seed\<close>.
\<close>

datatype bc_mode = Exact | Sampled nat nat

record btl_row =
  Protein_df :: node
  Total_Score_df :: nat
  BC_df :: real
  Degree_df :: nat
  Clustering_df :: real

record library =
  betweenness_centrality :: "graph \<Rightarrow> bc_mode \<Rightarrow> py_error + (node \<Rightarrow> real)"
  clustering :: "graph \<Rightarrow> py_error + (node \<Rightarrow> real)"
  sort_values :: "(btl_row \<Rightarrow> nat) \<Rightarrow> btl_row list \<Rightarrow> py_error + btl_row list"
  render :: "graph \<Rightarrow> node \<Rightarrow> node list \<Rightarrow> py_error + unit"

text \<open>The items of a metric dictionary, in the node order of the subgraph.\<close>

definition metric_items :: "graph \<Rightarrow> (node \<Rightarrow> 'v) \<Rightarrow> (node \<times> 'v) list" where
  "metric_items subG f = map (\<lambda>n. (n, f n)) (nodes subG)"

text \<open>\<^verbatim>\<open>dict(subG.degree())\<close>, the degree vector of both rankers.\<close>

definition degree_vector :: "graph \<Rightarrow> (node \<times> nat) list" where
  "degree_vector subG = metric_items subG (degree subG)"

text \<open>
  \<^verbatim>\<open>btl_anal\<close>, lines 104 to 109: which betweenness computation is asked for.
  \<^verbatim>\<open>int(len(subG) * 0.20)\<close> truncates the product, a float in the source and a real
  number here.
\<close>

definition k_sample :: "nat \<Rightarrow> nat" where
  "k_sample n = nat \<lfloor>real n * 0.20\<rfloor>"

definition betweenness_mode :: "nat \<Rightarrow> nat \<Rightarrow> bc_mode" where
  "betweenness_mode n large_cluster_limit =
     (if n > large_cluster_limit then Sampled (k_sample n) 42 else Exact)"


section \<open>The ranker of \<^verbatim>\<open>btl_anal\<close>: every node ranked\<close>

text \<open>\<^verbatim>\<open>get_ranks(metric_dict, ascending)\<close>, lines 24 to 30.\<close>

definition get_ranks :: "(node \<times> 'v::linorder) list \<Rightarrow> bool \<Rightarrow> (node \<rightharpoonup> nat)" where
  "get_ranks metric_dict ascending =
     (let sorted_items = py_sorted snd (\<not> ascending) metric_dict
      in dict_of (map (\<lambda>(rank, (node, val)). (node, rank + 1)) (enumerate 0 sorted_items)))"

text \<open>One row of \<open>results\<close> (lines 120 to 128); a missing key raises.\<close>

definition btl_result_row ::
  "(node \<rightharpoonup> nat) \<Rightarrow> (node \<rightharpoonup> nat) \<Rightarrow> (node \<rightharpoonup> nat) \<Rightarrow>
   (node \<Rightarrow> real) \<Rightarrow> (node \<Rightarrow> nat) \<Rightarrow> (node \<Rightarrow> real) \<Rightarrow> node \<Rightarrow> py_error + btl_row" where
  "btl_result_row rank_bc rank_deg rank_clust bc deg clust node =
     (case (rank_bc node, rank_deg node, rank_clust node) of
        (Some r_bc, Some r_deg, Some r_clust) \<Rightarrow>
          Inr \<lparr>Protein_df = node, Total_Score_df = r_bc + r_deg + r_clust,
               BC_df = bc node, Degree_df = deg node, Clustering_df = clust node\<rparr>
      | _ \<Rightarrow> Inl KeyError)"

text \<open>Lines 115 to 128: the three rankings and the list \<open>results\<close>, one row per node.\<close>

definition btl_results ::
  "graph \<Rightarrow> (node \<Rightarrow> real) \<Rightarrow> (node \<Rightarrow> real) \<Rightarrow> py_error + btl_row list" where
  "btl_results subG bc clust =
     (let deg = degree subG;
          rank_bc = get_ranks (metric_items subG bc) False;
          rank_deg = get_ranks (metric_items subG deg) False;
          rank_clust = get_ranks (metric_items subG clust) True
      in collect (btl_result_row rank_bc rank_deg rank_clust bc deg clust) (nodes subG))"

text \<open>
  The files \<^verbatim>\<open>btl_anal\<close> reads and writes: the pickles it loads from, the directories
  it has asked \<^verbatim>\<open>os.makedirs\<close> for, and the CSV report of each cluster
  (\<^verbatim>\<open>bottlenecks_cluster_<id>.csv\<close>, kept by cluster id). Failures of the file system
  are left out.
\<close>

datatype pickle = Missing | Corrupt string | Loaded graph "node set list"

record files =
  pickles :: "string \<Rightarrow> pickle"
  dirs :: "string set"
  csvs :: "nat \<rightharpoonup> btl_row list"

definition path_join :: "string \<Rightarrow> string \<Rightarrow> string" where
  "path_join a b = (if a = [] then b else if last a = CHR ''/'' then a @ b else a @ ''/'' @ b)"

record btl_report =
  dataframe :: "btl_row list"
  cluster_id :: nat

text \<open>
  \<^verbatim>\<open>btl_anal(target_protein, pickle_path, output_dir, top_n, large_cluster_limit)\<close>,
  lines 59 to 215. An exception of a library call is not caught and ends the function.
  \<^verbatim>\<open>pd.DataFrame(results)\<close> of an empty list has no column, so that sorting it by
  \<^verbatim>\<open>Total_Score\<close> raises a \<^verbatim>\<open>KeyError\<close>. The report is written before the plots are
  drawn; \<open>top_n\<close> only selects the candidates that the plots highlight.
\<close>

definition btl_anal ::
  "library \<Rightarrow> (node set \<Rightarrow> node list) \<Rightarrow> node \<Rightarrow> string \<Rightarrow> string \<Rightarrow> nat \<Rightarrow> nat \<Rightarrow> files
     \<Rightarrow> btl_report outcome \<times> files" where
  "btl_anal lib set_order target_protein pickle_path output_dir top_n large_cluster_limit fs =
     (let fs1 = fs\<lparr>dirs := insert (path_join output_dir ''images'') (dirs fs)\<rparr> in
      case pickles fs1 pickle_path of
        Missing \<Rightarrow> (Failed (''Pickle file not found at '' @ pickle_path), fs1)
      | Corrupt e \<Rightarrow> (Failed (''Failed to load pickle: '' @ e), fs1)
      | Loaded G communities \<Rightarrow>
         (case build_node2cluster communities target_protein of
            None \<Rightarrow> (Failed (''Protein '' @ quoted target_protein @ '' not found in the graph.''), fs1)
          | Some cid \<Rightarrow>
             if cid < length communities then
               (let target_nodes = communities ! cid;
                    subG = subgraph set_order G target_nodes
                in case clustering lib subG of
                     Inl e \<Rightarrow> (Raised e, fs1)
                   | Inr clust \<Rightarrow>
                 (case betweenness_centrality lib subG
                         (betweenness_mode (length (nodes subG)) large_cluster_limit) of
                     Inl e \<Rightarrow> (Raised e, fs1)
                   | Inr bc \<Rightarrow>
                 (case btl_results subG bc clust of
                     Inl e \<Rightarrow> (Raised e, fs1)
                   | Inr results \<Rightarrow>
                 if results = [] then (Raised KeyError, fs1)
                 else
                 (case sort_values lib Total_Score_df results of
                     Inl e \<Rightarrow> (Raised e, fs1)
                   | Inr df \<Rightarrow>
                 (let fs2 = fs1\<lparr>csvs := (csvs fs1)(cid \<mapsto> df)\<rparr>;
                      top_candidates = map Protein_df (take top_n df)
                  in case render lib subG target_protein top_candidates of
                       Inl e \<Rightarrow> (Raised e, fs2)
                     | Inr _ \<Rightarrow> (Done \<lparr>dataframe = df, cluster_id = cid\<rparr>, fs2))))))
             else (Raised IndexError, fs1)))"


section \<open>The ranker of script 04: ranks cut to a top-N window\<close>

record rank_row =
  Protein :: node
  BC_Rank :: nat
  Deg_Rank :: nat
  Clust_Rank :: nat
  Total_Score :: nat

text \<open>
  Lines 71 to 79: the items sorted by value, cut to the first \<open>TOP_N_RANKING\<close>, and the
  rank dictionary of that window.
\<close>

definition top_window :: "nat \<Rightarrow> bool \<Rightarrow> (node \<times> 'v::linorder) list \<Rightarrow> (node \<times> 'v) list" where
  "top_window top_n reverse scores = take top_n (py_sorted snd reverse scores)"

definition window_ranks :: "(node \<times> 'v) list \<Rightarrow> (node \<rightharpoonup> nat)" where
  "window_ranks sorted_x = dict_of (map (\<lambda>(i, (p, _)). (p, i + 1)) (enumerate 0 sorted_x))"

text \<open>Lines 86 to 98, the body of the loop over \<open>unique_proteins\<close>.\<close>

definition combined_row ::
  "nat \<Rightarrow> (node \<rightharpoonup> nat) \<Rightarrow> (node \<rightharpoonup> nat) \<Rightarrow> (node \<rightharpoonup> nat) \<Rightarrow> node \<Rightarrow> rank_row" where
  "combined_row top_n bc_ranks deg_ranks clust_ranks p =
     (let r_bc = dict_get bc_ranks p (top_n + 1);
          r_deg = dict_get deg_ranks p (top_n + 1);
          r_clust = dict_get clust_ranks p (top_n + 1);
          total_rank_score = r_bc + r_deg + r_clust
      in \<lparr>Protein = p, BC_Rank = r_bc, Deg_Rank = r_deg, Clust_Rank = r_clust,
          Total_Score = total_rank_score\<rparr>)"

text \<open>
  Lines 71 to 101. \<open>unique_proteins\<close> is a Python set of strings; the order in which the
  loop of line 86 meets its elements is the interpreter's, so the enumeration of a set is
  the parameter \<open>set_order\<close>.
\<close>

definition unique_proteins ::
  "nat \<Rightarrow> (node \<times> real) list \<Rightarrow> (node \<times> nat) list \<Rightarrow> (node \<times> real) list \<Rightarrow> node set" where
  "unique_proteins top_n bc_scores deg_scores clust_scores =
     dom (window_ranks (top_window top_n True bc_scores))
     \<union> dom (window_ranks (top_window top_n True deg_scores))
     \<union> dom (window_ranks (top_window top_n False clust_scores))"

definition combined_ranking ::
  "(node set \<Rightarrow> node list) \<Rightarrow> nat \<Rightarrow>
   (node \<times> real) list \<Rightarrow> (node \<times> nat) list \<Rightarrow> (node \<times> real) list \<Rightarrow> rank_row list" where
  "combined_ranking set_order top_n bc_scores deg_scores clust_scores =
     (let bc_ranks = window_ranks (top_window top_n True bc_scores);
          deg_ranks = window_ranks (top_window top_n True deg_scores);
          clust_ranks = window_ranks (top_window top_n False clust_scores);
          combined_results =
            map (combined_row top_n bc_ranks deg_ranks clust_ranks)
              (set_order (unique_proteins top_n bc_scores deg_scores clust_scores))
      in py_sorted Total_Score False combined_results)"

text \<open>
  \<^verbatim>\<open>main\<close> of \<^verbatim>\<open>04_target_bottleneck.py\<close>, lines 21 to 101: the pickle, the target's
  cluster, the metrics of its subgraph (betweenness always over all sources, line 59) and
  the ranking. A reported failure is the line the script prints before it returns; an
  exception of a library call ends the script. What follows the ranking (the printed top
  ten and the plot) is left out.
\<close>

definition target_bottleneck ::
  "library \<Rightarrow> (node set \<Rightarrow> node list) \<Rightarrow> node \<Rightarrow> nat \<Rightarrow> pickle \<Rightarrow> rank_row list outcome" where
  "target_bottleneck lib set_order target_protein top_n_ranking input_pickle =
     (case input_pickle of
        Missing \<Rightarrow> Failed ''Pickle not found.''
      | Corrupt e \<Rightarrow> Raised (UnpicklingError e)
      | Loaded G communities \<Rightarrow>
         (let node2cluster_id = build_node2cluster communities in
          case node2cluster_id target_protein of
            None \<Rightarrow>
              Failed (''[ERROR] Target protein '' @ quoted target_protein
                        @ '' not found in the network.'')
          | Some target_cluster_id \<Rightarrow>
             (let target_nodes = {n. node2cluster_id n = Some target_cluster_id};
                  target_subgraph = subgraph set_order G target_nodes
              in case betweenness_centrality lib target_subgraph Exact of
                   Inl e \<Rightarrow> Raised e
                 | Inr bc \<Rightarrow>
                    (case clustering lib target_subgraph of
                       Inl e \<Rightarrow> Raised e
                     | Inr clust \<Rightarrow>
                        Done (combined_ranking set_order top_n_ranking
                                (metric_items target_subgraph bc)
                                (degree_vector target_subgraph)
                                (metric_items target_subgraph clust))))))"

section \<open>Facts about the graph store\<close>

lemma nodes_add_node: "set (nodes (add_node G n)) = insert n (set (nodes G))"
  by (auto simp: add_node_def)

lemma adj_add_node: "adj (add_node G n) = adj G"
  by (simp add: add_node_def)

lemma nodes_add_edge: "set (nodes (add_edge G u v w)) = insert u (insert v (set (nodes G)))"
  by (auto simp: add_edge_def Let_def nodes_add_node)

lemma edge_weight_add_edge:
  "edge_weight (add_edge G a b w) u v =
     (if (a = u \<and> b = v) \<or> (a = v \<and> b = u) then Some w else edge_weight G u v)"
  by (auto simp: edge_weight_def add_edge_def Let_def adj_add_node update_conv')

lemma has_edge_iff: "has_edge G u v \<longleftrightarrow> edge_weight G u v \<noteq> None"
  by (simp add: has_edge_def edge_weight_def map_of_eq_None_iff)

lemma foldl_add_edge_snoc:
  "foldl (\<lambda>G (p1, p2, score). add_edge G p1 p2 score) G0 (recs @ [(a, b, w)]) =
     add_edge (foldl (\<lambda>G (p1, p2, score). add_edge G p1 p2 score) G0 recs) a b w"
  by simp

lemma edge_weight_louvain_graph:
  "edge_weight (louvain_graph recs) u v = map_option (\<lambda>(a, b, w). w) (last_record recs u v)"
proof (induction recs rule: rev_induct)
  case Nil
  show ?case
    by (simp add: louvain_graph_def last_record_def empty_graph_def edge_weight_def)
next
  case (snoc r recs)
  obtain a b w where r: "r = (a, b, w)" by (cases r)
  have step: "louvain_graph (recs @ [r]) = add_edge (louvain_graph recs) a b w"
    unfolding louvain_graph_def r by simp
  show ?case
    using snoc.IH unfolding step edge_weight_add_edge
    by (auto simp: last_record_def r)
qed

lemma nodes_louvain_graph:
  "set (nodes (louvain_graph recs)) = (\<Union>(a, b, w) \<in> set recs. {a, b})"
proof (induction recs rule: rev_induct)
  case Nil
  show ?case by (simp add: louvain_graph_def empty_graph_def)
next
  case (snoc r recs)
  obtain a b w where r: "r = (a, b, w)" by (cases r)
  have step: "louvain_graph (recs @ [r]) = add_edge (louvain_graph recs) a b w"
    unfolding louvain_graph_def r by simp
  show ?case
    using snoc.IH unfolding step nodes_add_edge by (auto simp: r)
qed

lemma distinct_adj_add_edge:
  "(\<And>n. distinct (map fst (adj G n))) \<Longrightarrow> distinct (map fst (adj (add_edge G a b w) n))"
  by (simp add: add_edge_def Let_def adj_add_node distinct_update)

lemma distinct_adj_louvain_graph: "distinct (map fst (adj (louvain_graph recs) n))"
proof (induction recs arbitrary: n rule: rev_induct)
  case Nil
  show ?case by (simp add: louvain_graph_def empty_graph_def)
next
  case (snoc r recs)
  obtain a b w where r: "r = (a, b, w)" by (cases r)
  have step: "louvain_graph (recs @ [r]) = add_edge (louvain_graph recs) a b w"
    unfolding louvain_graph_def r by simp
  show ?case unfolding step by (rule distinct_adj_add_edge) (rule snoc.IH)
qed

lemma length_filter_keys:
  assumes "distinct (map fst al)"
  shows "length (filter (\<lambda>(m, w). m \<in> ns) al) = card {m \<in> ns. m \<in> fst ` set al}"
proof -
  have "length (filter (\<lambda>(m, w). m \<in> ns) al) = length (filter (\<lambda>m. m \<in> ns) (map fst al))"
    by (induction al) auto
  also have "\<dots> = card (set (filter (\<lambda>m. m \<in> ns) (map fst al)))"
    by (rule distinct_card[symmetric]) (rule distinct_filter[OF assms])
  also have "set (filter (\<lambda>m. m \<in> ns) (map fst al)) = {m \<in> ns. m \<in> fst ` set al}"
    by auto
  finally show ?thesis .
qed

lemma degree_subgraph:
  assumes "distinct (map fst (adj G n))" and "n \<in> ns"
  shows "degree (subgraph set_order G ns) n =
           card {m \<in> ns. has_edge G n m} + (if has_edge G n n then 1 else 0)"
proof -
  have "n \<in> fst ` set (filter (\<lambda>(m, w). m \<in> ns) (adj G n)) \<longleftrightarrow> has_edge G n n"
    using assms(2) by (force simp: has_edge_def)
  then show ?thesis
    using assms by (simp add: degree_def subgraph_def Let_def length_filter_keys has_edge_def)
qed

lemma update_map_scale:
  "AList.update k (f w) (map (\<lambda>(v, x). (v, f x)) al) =
     map (\<lambda>(v, x). (v, f x)) (AList.update k w al)"
  by (induction al) auto

lemma add_edge_scaled:
  assumes "nodes G' = nodes G" and "\<And>u. adj G' u = map (\<lambda>(v, x). (v, f x)) (adj G u)"
  shows "nodes (add_edge G' a b (f w)) = nodes (add_edge G a b w)"
    and "adj (add_edge G' a b (f w)) u = map (\<lambda>(v, x). (v, f x)) (adj (add_edge G a b w) u)"
  using assms by (auto simp: add_edge_def Let_def add_node_def update_map_scale)

lemma foldl_add_edge_scaled:
  assumes "nodes G' = nodes G" and "\<And>u. adj G' u = map (\<lambda>(v, x). (v, f x)) (adj G u)"
  shows "nodes (foldl (\<lambda>G (p1, p2, score). add_edge G p1 p2 score) G'
                  (map (\<lambda>(p1, p2, score). (p1, p2, f score)) recs)) =
         nodes (foldl (\<lambda>G (p1, p2, score). add_edge G p1 p2 score) G recs)
       \<and> (\<forall>u. adj (foldl (\<lambda>G (p1, p2, score). add_edge G p1 p2 score) G'
                  (map (\<lambda>(p1, p2, score). (p1, p2, f score)) recs)) u =
         map (\<lambda>(v, x). (v, f x))
           (adj (foldl (\<lambda>G (p1, p2, score). add_edge G p1 p2 score) G recs) u))"
  using assms
proof (induction recs arbitrary: G G')
  case Nil
  then show ?case by simp
next
  case (Cons r recs)
  obtain a b w where r: "r = (a, b, w)" by (cases r)
  show ?case
    unfolding r
    apply simp
    apply (rule Cons.IH[simplified])
     apply (rule add_edge_scaled(1)[OF Cons.prems])
    apply (rule add_edge_scaled(2)[OF Cons.prems])
    done
qed

lemma map_of_scaled:
  "map_of (map (\<lambda>(v, w). (v, f w)) al) v = map_option f (map_of al v)"
  by (induction al) auto

section \<open>Edge insertion validates nothing\<close>

text \<open>
  Claim C2 says that inserting an edge fails when the endpoints are equal or the weight is
  not positive, so that the built graph holds no self-loop and no non-positive weight. The
  graph build has no such test: the record \<open>(P1, P1, 0)\<close> becomes a self-loop, and the
  record \<open>(P1, P2, -5)\<close> an edge of weight \<open>-5\<close>.
\<close>

theorem invalid_edge_counterexample:
  "has_edge (louvain_graph [(''P1'', ''P1'', 0)]) ''P1'' ''P1'' \<and>
   edge_weight (louvain_graph [(''P1'', ''P2'', - 5)]) ''P1'' ''P2'' = Some (- 5)"
  by (simp add: has_edge_iff edge_weight_louvain_graph last_record_def)

text \<open>
  Claim C2, amended: edge insertion validates nothing. Every ingested record \<open>(u, v, w)\<close>,
  whatever its endpoints and its weight, makes \<open>u\<close> and \<open>v\<close> nodes of the graph and
  \<open>{u, v}\<close> an edge of it, in both directions; the weight the edge carries is that of the
  last record that names the pair.
\<close>

theorem graph_build_accepts_every_record:
  assumes "(u, v, w) \<in> set recs"
  shows "u \<in> set (nodes (louvain_graph recs)) \<and> v \<in> set (nodes (louvain_graph recs)) \<and>
         has_edge (louvain_graph recs) u v \<and> has_edge (louvain_graph recs) v u \<and>
         edge_weight (louvain_graph recs) u v =
           map_option (\<lambda>(a, b, w). w) (last_record recs u v)"
proof -
  have n: "u \<in> set (nodes (louvain_graph recs))" "v \<in> set (nodes (louvain_graph recs))"
    using assms unfolding nodes_louvain_graph by auto
  have "last_record recs u v \<noteq> None" "last_record recs v u \<noteq> None"
    using assms by (auto simp: last_record_def find_None_iff)
  then have "has_edge (louvain_graph recs) u v" "has_edge (louvain_graph recs) v u"
    by (simp_all add: has_edge_iff edge_weight_louvain_graph)
  with n show ?thesis by (simp add: edge_weight_louvain_graph)
qed

theorem graph_build_accepts_every_record_witness:
  "(''P1'', ''P1'', - 1) \<in> set [(''P1'', ''P1'', - 1 :: real)] \<and>
   has_edge (louvain_graph [(''P1'', ''P1'', - 1)]) ''P1'' ''P1'' \<and>
   edge_weight (louvain_graph [(''P1'', ''P1'', - 1)]) ''P1'' ''P1'' = Some (- 1)"
proof -
  have h: "(''P1'', ''P1'', - 1) \<in> set [(''P1'', ''P1'', - 1 :: real)]" by simp
  show ?thesis using graph_build_accepts_every_record[OF h] by (simp add: last_record_def)
qed

section \<open>The degree the rankers use\<close>

text \<open>
  Claim C3 says that the degree vector fed to the bottleneck ranker is the weighted degree.
  On the graph of the single record \<open>(A, B, 5)\<close> the degree vector gives \<open>A\<close> the degree 1,
  while the sum of the weights of its incident edges is 5.
\<close>

theorem weighted_degree_counterexample:
  "degree_vector (subgraph (\<lambda>S. filter (\<lambda>n. n \<in> S) [''A'', ''B''])
        (louvain_graph [(''A'', ''B'', 5)]) {''A'', ''B''})
     = [(''A'', 1), (''B'', 1)]
   \<and> spec_weighted_degree (subgraph (\<lambda>S. filter (\<lambda>n. n \<in> S) [''A'', ''B''])
        (louvain_graph [(''A'', ''B'', 5)]) {''A'', ''B''}) ''A'' = 5"
  by (simp add: degree_vector_def metric_items_def subgraph_def louvain_graph_def add_edge_def
      add_node_def empty_graph_def degree_def spec_weighted_degree_def Let_def)

text \<open>
  Claim C3, amended: the degree vector fed to the bottleneck ranker holds, for each node of
  the community's subgraph, the number of its incident edges inside the community (a
  self-loop counted twice); the weights play no part in it. This holds in whatever order
  the subgraph lists its nodes.
\<close>

theorem degree_counts_incident_edges:
  assumes "(n, d) \<in> set (degree_vector (subgraph set_order (louvain_graph recs) ns))"
  shows "d = card {m \<in> ns. has_edge (louvain_graph recs) n m}
             + (if has_edge (louvain_graph recs) n n then 1 else 0)"
proof -
  from assms have "n \<in> ns"
    and d: "d = degree (subgraph set_order (louvain_graph recs) ns) n"
    by (auto simp: degree_vector_def metric_items_def subgraph_def Let_def split: if_splits)
  show ?thesis
    unfolding d by (rule degree_subgraph[OF distinct_adj_louvain_graph \<open>n \<in> ns\<close>])
qed

theorem degree_counts_incident_edges_witness:
  "(''A'', 1) \<in> set (degree_vector (subgraph (\<lambda>S. filter (\<lambda>n. n \<in> S) [''A'', ''B''])
        (louvain_graph [(''A'', ''B'', 5)]) {''A'', ''B''}))
   \<and> (1::nat) = card {m \<in> {''A'', ''B''}. has_edge (louvain_graph [(''A'', ''B'', 5)]) ''A'' m}
             + (if has_edge (louvain_graph [(''A'', ''B'', 5)]) ''A'' ''A'' then 1 else 0)"
proof -
  have h: "(''A'', 1) \<in> set (degree_vector
             (subgraph (\<lambda>S. filter (\<lambda>n. n \<in> S) [''A'', ''B''])
        (louvain_graph [(''A'', ''B'', 5)]) {''A'', ''B''}))"
    by (simp add: degree_vector_def metric_items_def subgraph_def louvain_graph_def
        add_edge_def add_node_def empty_graph_def degree_def Let_def)
  show ?thesis using h degree_counts_incident_edges[OF h] by simp
qed

section \<open>The two pipelines cluster differently scaled graphs\<close>

text \<open>
  Claim C10: the stochastic-flow pipeline divides every ingested weight by 1000 before it
  builds its graph, the modularity pipeline keeps the raw weights. For the same records the
  two graphs have the same nodes in the same order and the same adjacency, and every weight
  of the stochastic-flow graph is the weight of the modularity graph divided by 1000.
\<close>

theorem mcl_weights_scaled_by_1000:
  "mcl_graph recs =
     foldl (\<lambda>G (p1, p2, score). add_edge G p1 p2 score) empty_graph
       (map (\<lambda>(a, b, w). (a, b, w / 1000)) recs) \<and>
   nodes (mcl_graph recs) = nodes (louvain_graph recs) \<and>
   (\<forall>u. adj (mcl_graph recs) u = map (\<lambda>(v, w). (v, w / 1000)) (adj (louvain_graph recs) u)) \<and>
   (\<forall>u v. edge_weight (mcl_graph recs) u v =
           map_option (\<lambda>w. w / 1000) (edge_weight (louvain_graph recs) u v))"
proof -
  have *: "nodes (mcl_graph recs) = nodes (louvain_graph recs) \<and>
   (\<forall>u. adj (mcl_graph recs) u = map (\<lambda>(v, w). (v, w / 1000)) (adj (louvain_graph recs) u))"
    unfolding mcl_graph_def louvain_graph_def normalize_scores_def
    by (rule foldl_add_edge_scaled) (simp_all add: empty_graph_def)
  then show ?thesis
    by (simp add: edge_weight_def map_of_scaled mcl_graph_def normalize_scores_def)
qed

section \<open>Facts about the sample size\<close>

lemma k_sample_div: "k_sample n = n div 5"
proof -
  have "real n * 0.20 = real n / real 5" by simp
  then have "\<lfloor>real n * 0.20\<rfloor> = int (n div 5)"
    by (simp only: floor_divide_of_nat_eq)
  then show ?thesis unfolding k_sample_def by simp
qed

lemma betweenness_mode_cases:
  "(n > limit \<longrightarrow> betweenness_mode n limit = Sampled (n div 5) 42) \<and>
   (n \<le> limit \<longrightarrow> betweenness_mode n limit = Exact) \<and>
   5 * k_sample n \<le> n \<and> n < 5 * k_sample n + 5"
proof -
  have a: "5 * (n div 5) \<le> n" by simp
  have b: "n < 5 * (n div 5) + 5" by presburger
  show ?thesis
    unfolding betweenness_mode_def k_sample_div
    using a b by simp
qed

section \<open>A target protein that no community holds\<close>

lemma foldl_node2cluster_None:
  "foldl (\<lambda>m (cid, comm). (\<lambda>n. if n \<in> comm then Some cid else m n)) m0 (enumerate i cs) t = None
   \<longleftrightarrow> m0 t = None \<and> (\<forall>c \<in> set cs. t \<notin> c)"
  by (induction cs arbitrary: m0 i) auto

lemma build_node2cluster_None:
  "build_node2cluster communities t = None \<longleftrightarrow> (\<forall>c \<in> set communities. t \<notin> c)"
  unfolding build_node2cluster_def by (simp add: foldl_node2cluster_None)

text \<open>
  Claim C9: when the target protein is in no community of the loaded partition,
  \<^verbatim>\<open>btl_anal\<close> returns an error result that names the protein and script 04 reports
  the same and stops. No rank table is made: no report is written, and the pickle that
  holds the graph and the partition is as it was; only the image directory has been made.
\<close>

theorem missing_target_reported:
  assumes "pickles fs pickle_path = Loaded G communities"
    and "\<forall>c \<in> set communities. target_protein \<notin> c"
  shows "btl_anal lib set_order target_protein pickle_path output_dir top_n large_cluster_limit fs =
           (Failed (''Protein '' @ quoted target_protein @ '' not found in the graph.''),
            fs\<lparr>dirs := insert (path_join output_dir ''images'') (dirs fs)\<rparr>)
         \<and> target_bottleneck lib set_order target_protein top_n (Loaded G communities) =
             Failed (''[ERROR] Target protein '' @ quoted target_protein
                       @ '' not found in the network.'')"
proof -
  have "build_node2cluster communities target_protein = None"
    using assms(2) by (simp add: build_node2cluster_None)
  then show ?thesis
    using assms(1) by (simp add: btl_anal_def target_bottleneck_def Let_def)
qed


theorem missing_target_reported_witness:
  "btl_anal \<lparr>betweenness_centrality = (\<lambda>_ _. Inr (\<lambda>_. 0)), clustering = (\<lambda>_. Inr (\<lambda>_. 0)),
              sort_values = (\<lambda>_ rows. Inr rows), render = (\<lambda>_ _ _. Inr ())\<rparr>
     (\<lambda>S. filter (\<lambda>n. n \<in> S) [''P1'', ''P2''])
     ''SNCAIP'' ''louvain.pkl'' ''out'' 20 500
     \<lparr>pickles = (\<lambda>_. Loaded (louvain_graph [(''P1'', ''P2'', 900)]) [{''P1'', ''P2''}]),
      dirs = {}, csvs = Map.empty\<rparr>
   = (Failed ''Protein 'SNCAIP' not found in the graph.'',
      \<lparr>pickles = (\<lambda>_. Loaded (louvain_graph [(''P1'', ''P2'', 900)]) [{''P1'', ''P2''}]),
       dirs = {''out/images''}, csvs = Map.empty\<rparr>)"
proof -
  have h: "\<forall>c \<in> set [{''P1'', ''P2''}]. ''SNCAIP'' \<notin> c" by simp
  show ?thesis
    using missing_target_reported[where fs = "\<lparr>pickles = (\<lambda>_. Loaded (louvain_graph [(''P1'', ''P2'', 900)]) [{''P1'', ''P2''}]),
      dirs = {}, csvs = Map.empty\<rparr>", OF _ h, of "''louvain.pkl''"]
    by (simp add: quoted_def path_join_def)
qed

section \<open>Facts about sorting, collecting and node lists\<close>

lemma collect_Inr:
  "collect f xs = Inr ys \<Longrightarrow> length ys = length xs \<and> (\<forall>i<length xs. f (xs ! i) = Inr (ys ! i))"
proof (induction xs arbitrary: ys)
  case Nil
  then show ?case by simp
next
  case (Cons x xs)
  from Cons.prems obtain y ys' where y: "f x = Inr y" and ys': "collect f xs = Inr ys'"
    and ys: "ys = y # ys'"
    by (auto split: sum.splits)
  from Cons.IH[OF ys'] have ih: "length ys' = length xs" "\<forall>i<length xs. f (xs ! i) = Inr (ys' ! i)"
    by simp_all
  show ?case
  proof (intro conjI allI impI)
    show "length ys = length (x # xs)" using ih(1) ys by simp
  next
    fix i assume "i < length (x # xs)"
    then show "f ((x # xs) ! i) = Inr (ys ! i)"
      using y ih(2) ys by (cases i) simp_all
  qed
qed

lemma collect_total:
  "(\<And>x. x \<in> set xs \<Longrightarrow> \<exists>y. f x = Inr y) \<Longrightarrow> \<exists>ys. collect f xs = Inr ys"
proof (induction xs)
  case Nil
  show ?case by simp
next
  case (Cons x xs)
  from Cons.prems[of x] obtain y where y: "f x = Inr y" by auto
  from Cons.IH Cons.prems obtain ys where "collect f xs = Inr ys" by auto
  with y show ?case by simp
qed

lemma set_py_sorted: "set (py_sorted key r xs) = set xs"
  by (simp add: py_sorted_def)

lemma length_py_sorted: "length (py_sorted key r xs) = length xs"
  by (simp add: py_sorted_def)

lemma py_sorted_descending:
  assumes "i < j" and "j < length xs"
  shows "key (py_sorted key True xs ! j) \<le> key (py_sorted key True xs ! i)"
proof -
  let ?ys = "py_sorted key True xs"
  have "sorted (rev (map key ?ys))"
    by (simp add: py_sorted_def rev_map[symmetric])
  then have "map key ?ys ! j \<le> map key ?ys ! i"
    using assms by (simp add: sorted_rev_iff_nth_mono length_py_sorted)
  then show ?thesis using assms by (simp add: length_py_sorted)
qed

lemma py_sorted_ascending: "sorted (map key (py_sorted key False xs))"
  by (simp add: py_sorted_def)

lemma distinct_nodes_add_edge: "distinct (nodes G) \<Longrightarrow> distinct (nodes (add_edge G a b w))"
  by (auto simp: add_edge_def Let_def add_node_def)

lemma distinct_nodes_foldl:
  "distinct (nodes G) \<Longrightarrow>
   distinct (nodes (foldl (\<lambda>G (p1, p2, score). add_edge G p1 p2 score) G recs))"
  by (induction recs arbitrary: G) (auto simp: distinct_nodes_add_edge)

lemma distinct_nodes_mcl_graph: "distinct (nodes (mcl_graph recs))"
  unfolding mcl_graph_def by (rule distinct_nodes_foldl) (simp add: empty_graph_def)

lemma card_members:
  assumes "distinct nl" and "distinct c" and "\<forall>i \<in> set c. i < length nl"
  shows "card (set (map (\<lambda>i. nl ! i) c)) = length c"
proof -
  have "inj_on (nth nl) (set c)" using assms(1,3) by (rule inj_on_nth)
  then have "distinct (map (\<lambda>i. nl ! i) c)" using assms(2) by (simp add: distinct_map)
  then have "card (set (map (\<lambda>i. nl ! i) c)) = length (map (\<lambda>i. nl ! i) c)"
    by (rule distinct_card)
  then show ?thesis by simp
qed

section \<open>Communities of the stochastic-flow pipeline, largest first\<close>

text \<open>
  Claim C8: the community list of the stochastic-flow pipeline is indexed by descending
  size. The index clusters come from \<^verbatim>\<open>mc.get_clusters\<close>: each is a tuple of distinct
  indices of the matrix, whose rows follow \<open>nodes_list\<close>. For such clusters both
  scripts produce their community list, one community per cluster, and for all
  \<open>i < j\<close> community \<open>i\<close> has at least as many members as community \<open>j\<close>.
\<close>

theorem mcl_communities_descending_size:
  assumes "\<forall>c \<in> set clusters_indices.
             distinct c \<and> (\<forall>i \<in> set c. i < length (nodes (mcl_graph recs)))"
  shows "\<exists>groups comms.
           community_groups (nodes (mcl_graph recs)) clusters_indices = Inr groups \<and>
           mcl_communities (nodes (mcl_graph recs)) clusters_indices = Inr comms \<and>
           length groups = length clusters_indices \<and> length comms = length clusters_indices \<and>
           (\<forall>i j. i < j \<and> j < length clusters_indices \<longrightarrow>
                  length (groups ! j) \<le> length (groups ! i) \<and>
                  card (comms ! j) \<le> card (comms ! i))"
proof -
  let ?nl = "nodes (mcl_graph recs)"
  let ?cs = "py_sorted length True clusters_indices"
  have ok: "list_all (\<lambda>i. i < length ?nl) c" "distinct c" "\<forall>i \<in> set c. i < length ?nl"
    if "c \<in> set ?cs" for c
    using assms that by (auto simp: set_py_sorted list_all_iff)
  have m: "members_of ?nl c = Inr (map (\<lambda>i. ?nl ! i) c)" if "c \<in> set ?cs" for c
    using ok(1)[OF that] by (simp add: members_of_def)
  obtain groups where g: "community_groups ?nl clusters_indices = Inr groups"
    unfolding community_groups_def using collect_total[of ?cs "members_of ?nl"] m by blast
  obtain comms where c: "mcl_communities ?nl clusters_indices = Inr comms"
    unfolding mcl_communities_def
    using collect_total[of ?cs "\<lambda>indices. map_sum id set (members_of ?nl indices)"] m
    by fastforce
  from collect_Inr[OF g[unfolded community_groups_def]]
  have lg: "length groups = length clusters_indices"
    and gi: "\<And>i. i < length clusters_indices \<Longrightarrow> members_of ?nl (?cs ! i) = Inr (groups ! i)"
    by (simp_all add: length_py_sorted)
  from collect_Inr[OF c[unfolded mcl_communities_def]]
  have lc: "length comms = length clusters_indices"
    and ci: "\<And>i. i < length clusters_indices \<Longrightarrow>
               map_sum id set (members_of ?nl (?cs ! i)) = Inr (comms ! i)"
    by (simp_all add: length_py_sorted)
  have size_g: "length (groups ! i) = length (?cs ! i)"
    and size_c: "card (comms ! i) = length (?cs ! i)" if "i < length clusters_indices" for i
  proof -
    have mem: "?cs ! i \<in> set ?cs" using that by (simp add: length_py_sorted)
    from gi[OF that] m[OF mem] have ge: "groups ! i = map (\<lambda>k. ?nl ! k) (?cs ! i)" by simp
    then show "length (groups ! i) = length (?cs ! i)" by simp
    from ci[OF that] m[OF mem] have "comms ! i = set (map (\<lambda>k. ?nl ! k) (?cs ! i))" by simp
    then show "card (comms ! i) = length (?cs ! i)"
      using card_members[OF distinct_nodes_mcl_graph ok(2)[OF mem] ok(3)[OF mem]] by simp
  qed
  have "length (groups ! j) \<le> length (groups ! i) \<and> card (comms ! j) \<le> card (comms ! i)"
    if "i < j" "j < length clusters_indices" for i j
  proof -
    have "i < length clusters_indices" using that by simp
    then show ?thesis
      using py_sorted_descending[OF that, of length] size_g size_c that(2) by simp
  qed
  with g c lg lc show ?thesis by blast
qed


theorem mcl_communities_descending_size_witness:
  "list_all (\<lambda>c. distinct c \<and>
      list_all (\<lambda>i. i < length (nodes (mcl_graph
         [(''A'', ''B'', 900), (''B'', ''C'', 800), (''D'', ''E'', 700)]))) c)
      [[3, 4], [0, 1, 2]] \<and>
   mcl_communities (nodes (mcl_graph
         [(''A'', ''B'', 900), (''B'', ''C'', 800), (''D'', ''E'', 700)])) [[3, 4], [0, 1, 2]]
     = Inr [{''A'', ''B'', ''C''}, {''D'', ''E''}] \<and>
   (\<exists>groups comms.
      community_groups (nodes (mcl_graph
         [(''A'', ''B'', 900), (''B'', ''C'', 800), (''D'', ''E'', 700)])) [[3, 4], [0, 1, 2]]
        = Inr groups \<and>
      mcl_communities (nodes (mcl_graph
         [(''A'', ''B'', 900), (''B'', ''C'', 800), (''D'', ''E'', 700)])) [[3, 4], [0, 1, 2]]
        = Inr comms \<and>
      length groups = length [[3, 4], [0, 1, 2 :: nat]] \<and>
      length comms = length [[3, 4], [0, 1, 2 :: nat]] \<and>
      (\<forall>i j. i < j \<and> j < length [[3, 4], [0, 1, 2 :: nat]] \<longrightarrow>
             length (groups ! j) \<le> length (groups ! i) \<and>
             card (comms ! j) \<le> card (comms ! i)))"
proof -
  have nl: "nodes (mcl_graph [(''A'', ''B'', 900), (''B'', ''C'', 800), (''D'', ''E'', 700)])
              = [''A'', ''B'', ''C'', ''D'', ''E'']"
    by (simp add: mcl_graph_def normalize_scores_def add_edge_def add_node_def empty_graph_def
        Let_def)
  have h: "\<forall>c \<in> set [[3, 4], [0, 1, 2]]. distinct c \<and>
      (\<forall>i \<in> set c. i < length (nodes (mcl_graph
         [(''A'', ''B'', 900), (''B'', ''C'', 800), (''D'', ''E'', 700)])))"
    unfolding nl by simp
  have v: "mcl_communities (nodes (mcl_graph
         [(''A'', ''B'', 900), (''B'', ''C'', 800), (''D'', ''E'', 700)])) [[3, 4], [0, 1, 2]]
     = Inr [{''A'', ''B'', ''C''}, {''D'', ''E''}]"
    unfolding nl by (simp add: mcl_communities_def py_sorted_def members_of_def)
  have h': "list_all (\<lambda>c. distinct c \<and>
      list_all (\<lambda>i. i < length (nodes (mcl_graph
         [(''A'', ''B'', 900), (''B'', ''C'', 800), (''D'', ''E'', 700)]))) c)
      [[3, 4], [0, 1, 2]]"
    unfolding nl by simp
  show ?thesis
    by (rule conjI[OF h' conjI[OF v mcl_communities_descending_size[OF h]]])
qed

section \<open>Facts about rank dictionaries\<close>

lemma dom_foldl_upd:
  "dom (foldl (\<lambda>m (k, v). m(k \<mapsto> v)) m0 kvs) = dom m0 \<union> fst ` set kvs"
  by (induction kvs arbitrary: m0) auto

lemma dom_dict_of: "dom (dict_of kvs) = fst ` set kvs"
  by (simp add: dict_of_def dom_foldl_upd)

lemma foldl_upd_Some:
  "foldl (\<lambda>m (k, v). m(k \<mapsto> v)) m0 kvs x = Some y \<Longrightarrow> m0 x = Some y \<or> (x, y) \<in> set kvs"
proof (induction kvs arbitrary: m0)
  case Nil
  then show ?case by simp
next
  case (Cons kv kvs)
  obtain a b where kv: "kv = (a, b)" by (cases kv)
  from Cons.prems have "foldl (\<lambda>m (k, v). m(k \<mapsto> v)) (m0(a \<mapsto> b)) kvs x = Some y"
    by (simp only: kv foldl_Cons case_prod_conv)
  from Cons.IH[OF this] show ?case
    by (auto simp: kv split: if_splits)
qed

lemma dict_of_Some: "dict_of kvs k = Some v \<Longrightarrow> (k, v) \<in> set kvs"
  using foldl_upd_Some[of Map.empty kvs k v] by (simp add: dict_of_def)

lemma fst_rank_pairs:
  "map fst (map (\<lambda>(i, (p, _)). (p, i + 1)) (enumerate n xs)) = map fst xs"
  by (induction xs arbitrary: n) auto

lemma dom_window_ranks: "dom (window_ranks xs) = fst ` set xs"
proof -
  have "fst ` set (map (\<lambda>(i, (p, _)). (p, i + 1)) (enumerate 0 xs)) = fst ` set xs"
    using fst_rank_pairs[of 0 xs] by (metis set_map)
  then show ?thesis by (simp add: window_ranks_def dom_dict_of)
qed

lemma window_ranks_range:
  assumes "window_ranks xs p = Some r"
  shows "1 \<le> r \<and> r \<le> length xs"
proof -
  from assms have "(p, r) \<in> set (map (\<lambda>(i, (p, _)). (p, i + 1)) (enumerate 0 xs))"
    unfolding window_ranks_def by (rule dict_of_Some)
  then obtain i q v where "(i, (q, v)) \<in> set (enumerate 0 xs)" and "r = i + 1"
    by auto
  then show ?thesis by (auto simp: in_set_enumerate_eq)
qed

lemma length_top_window: "length (top_window top_n reverse scores) \<le> top_n"
  by (simp add: top_window_def)

lemma rank_in_window:
  assumes "length xs \<le> top_n"
  shows "(p \<notin> fst ` set xs \<longrightarrow> dict_get (window_ranks xs) p (top_n + 1) = top_n + 1) \<and>
         (p \<in> fst ` set xs \<longrightarrow> 1 \<le> dict_get (window_ranks xs) p (top_n + 1)
                                  \<and> dict_get (window_ranks xs) p (top_n + 1) \<le> top_n)"
proof (cases "window_ranks xs p")
  case None
  then have "p \<notin> fst ` set xs" using dom_window_ranks[of xs] by auto
  with None show ?thesis by (simp add: dict_get_def)
next
  case (Some r)
  then have "p \<in> fst ` set xs" using dom_window_ranks[of xs] by auto
  with Some window_ranks_range[OF Some] assms show ?thesis by (simp add: dict_get_def)
qed

section \<open>Facts about the two rankers\<close>







lemma node2cluster_single:
  "build_node2cluster [S] n = (if n \<in> S then Some 0 else None)"
  by (simp add: build_node2cluster_def)

lemma target_bottleneck_located:
  assumes "build_node2cluster communities target_protein = Some c"
    and "betweenness_centrality lib
           (subgraph set_order G {n. build_node2cluster communities n = Some c}) Exact = Inr bc"
    and "clustering lib
           (subgraph set_order G {n. build_node2cluster communities n = Some c}) = Inr clust"
  shows "target_bottleneck lib set_order target_protein top_n (Loaded G communities) =
     Done (combined_ranking set_order top_n
       (metric_items (subgraph set_order G {n. build_node2cluster communities n = Some c}) bc)
       (degree_vector (subgraph set_order G {n. build_node2cluster communities n = Some c}))
       (metric_items (subgraph set_order G {n. build_node2cluster communities n = Some c}) clust))"
  using assms by (simp add: target_bottleneck_def Let_def)

section \<open>The rank table of the top-N mode\<close>

text \<open>
  Claim C5 gives every node a rank in every metric and an aggregate score. Script 04 builds
  its table from the union of the three windows only (lines 81 to 83). On the path
  \<open>Z - Q - A - S\<close> with \<open>N = 2\<close> the node \<open>S\<close> belongs to the target's community
  subgraph and is outside the window of all three metrics: the table has no row for it, so
  it gets neither the rank \<open>N + 1\<close> nor an aggregate score. With \<open>N = 0\<close> the table is
  empty.
\<close>

theorem rank_table_counterexample:
  "''S'' \<in> set (nodes (subgraph (\<lambda>S. filter (\<lambda>p. p \<in> S) [''Q'', ''Z'', ''S'', ''A''])
      (louvain_graph [(''Q'', ''Z'', 1), (''S'', ''A'', 1), (''Q'', ''A'', 1)])
      {n. build_node2cluster [{''Q'', ''Z'', ''S'', ''A''}] n = Some 0})) \<and>
   target_bottleneck
     \<lparr>betweenness_centrality =
        (\<lambda>G mode. Inr (\<lambda>n. if n = ''Q'' \<or> n = ''A'' then 2 / 3 else 0)),
      clustering = (\<lambda>_. Inr (\<lambda>_. 0)),
      sort_values = (\<lambda>key rows. Inr (sort_key key rows)),
      render = (\<lambda>_ _ _. Inr ())\<rparr>
     (\<lambda>S. filter (\<lambda>p. p \<in> S) [''Q'', ''Z'', ''S'', ''A'']) ''Q'' 2
     (Loaded (louvain_graph [(''Q'', ''Z'', 1), (''S'', ''A'', 1), (''Q'', ''A'', 1)])
        [{''Q'', ''Z'', ''S'', ''A''}])
     = Done [\<lparr>Protein = ''Q'', BC_Rank = 1, Deg_Rank = 1, Clust_Rank = 1, Total_Score = 3\<rparr>,
             \<lparr>Protein = ''A'', BC_Rank = 2, Deg_Rank = 2, Clust_Rank = 3, Total_Score = 7\<rparr>,
             \<lparr>Protein = ''Z'', BC_Rank = 3, Deg_Rank = 3, Clust_Rank = 2, Total_Score = 8\<rparr>] \<and>
   target_bottleneck
     \<lparr>betweenness_centrality =
        (\<lambda>G mode. Inr (\<lambda>n. if n = ''Q'' \<or> n = ''A'' then 2 / 3 else 0)),
      clustering = (\<lambda>_. Inr (\<lambda>_. 0)),
      sort_values = (\<lambda>key rows. Inr (sort_key key rows)),
      render = (\<lambda>_ _ _. Inr ())\<rparr>
     (\<lambda>S. filter (\<lambda>p. p \<in> S) [''Q'', ''Z'', ''S'', ''A'']) ''Q'' 0
     (Loaded (louvain_graph [(''Q'', ''Z'', 1), (''S'', ''A'', 1), (''Q'', ''A'', 1)])
        [{''Q'', ''Z'', ''S'', ''A''}])
     = Done []"
proof -
  let ?lib = "\<lparr>betweenness_centrality =
        (\<lambda>G mode. Inr (\<lambda>n. if n = ''Q'' \<or> n = ''A'' then 2 / 3 else 0)),
      clustering = (\<lambda>_. Inr (\<lambda>_. 0)),
      sort_values = (\<lambda>key rows. Inr (sort_key key rows)),
      render = (\<lambda>_ _ _. Inr ())\<rparr>"
  let ?ord = "(\<lambda>S. filter (\<lambda>p. p \<in> S) [''Q'', ''Z'', ''S'', ''A''])"
  let ?G = "louvain_graph [(''Q'', ''Z'', 1), (''S'', ''A'', 1), (''Q'', ''A'', 1)]"
  define sub where "sub = subgraph ?ord ?G {''Q'', ''Z'', ''S'', ''A''}"
  have tn: "{n. build_node2cluster [{''Q'', ''Z'', ''S'', ''A''}] n = Some 0}
              = {''Q'', ''Z'', ''S'', ''A''}"
    by (auto simp: node2cluster_single split: if_splits)
  have adjs: "adj ?G ''Q'' = [(''Z'', 1), (''A'', 1)]" "adj ?G ''Z'' = [(''Q'', 1)]"
    "adj ?G ''S'' = [(''A'', 1)]" "adj ?G ''A'' = [(''S'', 1), (''Q'', 1)]"
    "nodes ?G = [''Q'', ''Z'', ''S'', ''A'']"
    by (simp_all add: louvain_graph_def add_edge_def add_node_def empty_graph_def Let_def)
  have n4: "nodes sub = [''Q'', ''Z'', ''S'', ''A'']"
    by (simp add: sub_def subgraph_def Let_def adjs)
  have degs: "degree sub ''Q'' = 2" "degree sub ''Z'' = 1" "degree sub ''S'' = 1"
    "degree sub ''A'' = 2"
    by (simp_all add: sub_def subgraph_def Let_def adjs degree_def)
  have a: "''S'' \<in> set (nodes sub)"
    unfolding n4 by simp
  have h1: "build_node2cluster [{''Q'', ''Z'', ''S'', ''A''}] ''Q'' = Some 0"
    by (simp add: node2cluster_single)
  have h2: "betweenness_centrality ?lib sub Exact
              = Inr (\<lambda>n. if n = ''Q'' \<or> n = ''A'' then 2 / 3 else 0)"
    by simp
  have h3: "clustering ?lib sub = Inr (\<lambda>_. 0)"
    by simp
  have items: "metric_items sub (\<lambda>n. if n = ''Q'' \<or> n = ''A'' then 2 / 3 else (0 :: real))
                 = [(''Q'', 2 / 3), (''Z'', 0), (''S'', 0), (''A'', 2 / 3)]"
    "degree_vector sub = [(''Q'', 2), (''Z'', 1), (''S'', 1), (''A'', 2)]"
    "metric_items sub (\<lambda>_. 0 :: real) = [(''Q'', 0), (''Z'', 0), (''S'', 0), (''A'', 0)]"
    by (simp_all add: metric_items_def degree_vector_def n4 degs)
  have run: "target_bottleneck ?lib ?ord ''Q'' N (Loaded ?G [{''Q'', ''Z'', ''S'', ''A''}])
     = Done (combined_ranking ?ord N
         [(''Q'', 2 / 3), (''Z'', 0), (''S'', 0), (''A'', 2 / 3)]
         [(''Q'', 2), (''Z'', 1), (''S'', 1), (''A'', 2)]
         [(''Q'', 0), (''Z'', 0), (''S'', 0), (''A'', 0)])" for N
    using target_bottleneck_located[where lib = ?lib and set_order = ?ord and G = ?G
        and communities = "[{''Q'', ''Z'', ''S'', ''A''}]" and target_protein = "''Q''"
        and c = 0 and top_n = N, unfolded tn, folded sub_def, OF h1 h2 h3]
    unfolding items .
  have t2: "combined_ranking ?ord 2
         [(''Q'', 2 / 3), (''Z'', 0), (''S'', 0), (''A'', 2 / 3)]
         [(''Q'', 2), (''Z'', 1), (''S'', 1), (''A'', 2)]
         [(''Q'', 0), (''Z'', 0), (''S'', 0), (''A'', 0)]
     = [\<lparr>Protein = ''Q'', BC_Rank = 1, Deg_Rank = 1, Clust_Rank = 1, Total_Score = 3\<rparr>,
        \<lparr>Protein = ''A'', BC_Rank = 2, Deg_Rank = 2, Clust_Rank = 3, Total_Score = 7\<rparr>,
        \<lparr>Protein = ''Z'', BC_Rank = 3, Deg_Rank = 3, Clust_Rank = 2, Total_Score = 8\<rparr>]"
    by (simp add: combined_ranking_def unique_proteins_def dom_window_ranks top_window_def
      py_sorted_def window_ranks_def dict_of_def combined_row_def dict_get_def Let_def
      enumerate_eq_zip)
  have t0: "combined_ranking ?ord 0
         [(''Q'', 2 / 3), (''Z'', 0), (''S'', 0), (''A'', 2 / 3)]
         [(''Q'', 2), (''Z'', 1), (''S'', 1), (''A'', 2)]
         [(''Q'', 0), (''Z'', 0), (''S'', 0), (''A'', 0)] = []"
    by (simp add: combined_ranking_def unique_proteins_def dom_window_ranks top_window_def
      py_sorted_def Let_def)
  have a': "''S'' \<in> set (nodes (subgraph ?ord ?G
                 {n. build_node2cluster [{''Q'', ''Z'', ''S'', ''A''}] n = Some 0}))"
    unfolding tn using a[unfolded sub_def] .
  show ?thesis
    by (rule conjI[OF a' conjI[OF run[of 2, unfolded t2] run[of 0, unfolded t0]]])
qed

text \<open>
  Claim C5, amended: the ranker of script 04 cuts each metric's ranking to its first
  \<open>TOP_N_RANKING\<close> entries and has a row only for a node that is inside the window of
  at least one metric; a node outside all three windows has no row, no rank and no
  aggregate score. In every row of the table, a metric whose window the row's node is
  outside of has the rank \<open>N + 1\<close> (inside it the rank is from 1 to \<open>N\<close>), the aggregate
  score of the row is the sum of its three ranks, and the table is in ascending order of
  aggregate score. When the loop over the set \<open>unique_proteins\<close> meets each of its
  elements, the nodes of the table are exactly those of the three windows.
\<close>

theorem top_n_rank_table:
  "(\<forall>row \<in> set (combined_ranking set_order top_n bc_scores deg_scores clust_scores).
      (Protein row \<notin> fst ` set (top_window top_n True bc_scores)
         \<longrightarrow> BC_Rank row = top_n + 1) \<and>
      (Protein row \<notin> fst ` set (top_window top_n True deg_scores)
         \<longrightarrow> Deg_Rank row = top_n + 1) \<and>
      (Protein row \<notin> fst ` set (top_window top_n False clust_scores)
         \<longrightarrow> Clust_Rank row = top_n + 1) \<and>
      (Protein row \<in> fst ` set (top_window top_n True bc_scores)
         \<longrightarrow> 1 \<le> BC_Rank row \<and> BC_Rank row \<le> top_n) \<and>
      (Protein row \<in> fst ` set (top_window top_n True deg_scores)
         \<longrightarrow> 1 \<le> Deg_Rank row \<and> Deg_Rank row \<le> top_n) \<and>
      (Protein row \<in> fst ` set (top_window top_n False clust_scores)
         \<longrightarrow> 1 \<le> Clust_Rank row \<and> Clust_Rank row \<le> top_n) \<and>
      Total_Score row = BC_Rank row + Deg_Rank row + Clust_Rank row) \<and>
   sorted (map Total_Score
     (combined_ranking set_order top_n bc_scores deg_scores clust_scores)) \<and>
   (set (set_order (unique_proteins top_n bc_scores deg_scores clust_scores))
      = unique_proteins top_n bc_scores deg_scores clust_scores \<longrightarrow>
    Protein ` set (combined_ranking set_order top_n bc_scores deg_scores clust_scores)
      = fst ` set (top_window top_n True bc_scores)
        \<union> fst ` set (top_window top_n True deg_scores)
        \<union> fst ` set (top_window top_n False clust_scores))"
proof (intro conjI ballI)
  fix row
  assume "row \<in> set (combined_ranking set_order top_n bc_scores deg_scores clust_scores)"
  then obtain p where row: "row = combined_row top_n
      (window_ranks (top_window top_n True bc_scores))
      (window_ranks (top_window top_n True deg_scores))
      (window_ranks (top_window top_n False clust_scores)) p"
    by (auto simp: combined_ranking_def Let_def set_py_sorted)
  note r1 = rank_in_window[OF length_top_window[of top_n True bc_scores], where p = p]
  note r2 = rank_in_window[OF length_top_window[of top_n True deg_scores], where p = p]
  note r3 = rank_in_window[OF length_top_window[of top_n False clust_scores], where p = p]
  show "Protein row \<notin> fst ` set (top_window top_n True bc_scores)
         \<longrightarrow> BC_Rank row = top_n + 1"
    using r1 by (simp add: row combined_row_def Let_def)
  show "Protein row \<notin> fst ` set (top_window top_n True deg_scores)
         \<longrightarrow> Deg_Rank row = top_n + 1"
    using r2 by (simp add: row combined_row_def Let_def)
  show "Protein row \<notin> fst ` set (top_window top_n False clust_scores)
         \<longrightarrow> Clust_Rank row = top_n + 1"
    using r3 by (simp add: row combined_row_def Let_def)
  show "Protein row \<in> fst ` set (top_window top_n True bc_scores)
         \<longrightarrow> 1 \<le> BC_Rank row \<and> BC_Rank row \<le> top_n"
    using r1 by (simp add: row combined_row_def Let_def)
  show "Protein row \<in> fst ` set (top_window top_n True deg_scores)
         \<longrightarrow> 1 \<le> Deg_Rank row \<and> Deg_Rank row \<le> top_n"
    using r2 by (simp add: row combined_row_def Let_def)
  show "Protein row \<in> fst ` set (top_window top_n False clust_scores)
         \<longrightarrow> 1 \<le> Clust_Rank row \<and> Clust_Rank row \<le> top_n"
    using r3 by (simp add: row combined_row_def Let_def)
  show "Total_Score row = BC_Rank row + Deg_Rank row + Clust_Rank row"
    by (simp add: row combined_row_def Let_def)
next
  show "sorted (map Total_Score
     (combined_ranking set_order top_n bc_scores deg_scores clust_scores))"
    by (simp add: combined_ranking_def Let_def py_sorted_ascending)
next
  show "(set (set_order (unique_proteins top_n bc_scores deg_scores clust_scores))
        = unique_proteins top_n bc_scores deg_scores clust_scores \<longrightarrow>
      Protein ` set (combined_ranking set_order top_n bc_scores deg_scores clust_scores)
        = fst ` set (top_window top_n True bc_scores)
          \<union> fst ` set (top_window top_n True deg_scores)
          \<union> fst ` set (top_window top_n False clust_scores))"
  proof
    assume e: "set (set_order (unique_proteins top_n bc_scores deg_scores clust_scores))
      = unique_proteins top_n bc_scores deg_scores clust_scores"
    have P: "Protein (combined_row n a b c p) = p" for n a b c p
      by (simp add: combined_row_def Let_def)
    have "Protein ` set (combined_ranking set_order top_n bc_scores deg_scores clust_scores)
            = set (set_order (unique_proteins top_n bc_scores deg_scores clust_scores))"
      by (simp add: combined_ranking_def Let_def set_py_sorted image_image P)
    then show "Protein ` set (combined_ranking set_order top_n bc_scores deg_scores clust_scores)
      = fst ` set (top_window top_n True bc_scores)
        \<union> fst ` set (top_window top_n True deg_scores)
        \<union> fst ` set (top_window top_n False clust_scores)"
      unfolding e by (simp add: unique_proteins_def dom_window_ranks)
  qed
qed

theorem top_n_rank_table_witness:
  "combined_ranking (\<lambda>S. filter (\<lambda>p. p \<in> S) [''Q'', ''Z'', ''S'', ''A'']) 2
       [(''Q'', 2 / 3), (''Z'', 0), (''S'', 0), (''A'', 2 / 3)]
       [(''Q'', 2), (''Z'', 1), (''S'', 1), (''A'', 2)]
       [(''Q'', 0), (''Z'', 0), (''S'', 0), (''A'', 0)]
     = [\<lparr>Protein = ''Q'', BC_Rank = 1, Deg_Rank = 1, Clust_Rank = 1, Total_Score = 3\<rparr>,
        \<lparr>Protein = ''A'', BC_Rank = 2, Deg_Rank = 2, Clust_Rank = 3, Total_Score = 7\<rparr>,
        \<lparr>Protein = ''Z'', BC_Rank = 3, Deg_Rank = 3, Clust_Rank = 2, Total_Score = 8\<rparr>] \<and>
   ''Z'' \<notin> fst ` set (top_window 2 True
           ([(''Q'', 2 / 3), (''Z'', 0), (''S'', 0), (''A'', 2 / 3)] :: (node \<times> real) list)) \<and>
   BC_Rank ((combined_ranking (\<lambda>S. filter (\<lambda>p. p \<in> S) [''Q'', ''Z'', ''S'', ''A'']) 2
       [(''Q'', 2 / 3), (''Z'', 0), (''S'', 0), (''A'', 2 / 3)]
       [(''Q'', 2), (''Z'', 1), (''S'', 1), (''A'', 2)]
       [(''Q'', 0), (''Z'', 0), (''S'', 0), (''A'', 0)]) ! 2) = 2 + 1 \<and>
   sorted (map Total_Score
     (combined_ranking (\<lambda>S. filter (\<lambda>p. p \<in> S) [''Q'', ''Z'', ''S'', ''A'']) 2
       [(''Q'', 2 / 3), (''Z'', 0), (''S'', 0), (''A'', 2 / 3)]
       [(''Q'', 2), (''Z'', 1), (''S'', 1), (''A'', 2)]
       [(''Q'', 0), (''Z'', 0), (''S'', 0), (''A'', 0)])) \<and>
   set ((\<lambda>S. filter (\<lambda>p. p \<in> S) [''Q'', ''Z'', ''S'', ''A''])
     (unique_proteins 2
       [(''Q'', 2 / 3), (''Z'', 0), (''S'', 0), (''A'', 2 / 3)]
       [(''Q'', 2), (''Z'', 1), (''S'', 1), (''A'', 2)]
       [(''Q'', 0), (''Z'', 0), (''S'', 0), (''A'', 0)]))
     = unique_proteins 2
       [(''Q'', 2 / 3), (''Z'', 0), (''S'', 0), (''A'', 2 / 3)]
       [(''Q'', 2), (''Z'', 1), (''S'', 1), (''A'', 2)]
       [(''Q'', 0), (''Z'', 0), (''S'', 0), (''A'', 0)] \<and>
   Protein ` set (combined_ranking (\<lambda>S. filter (\<lambda>p. p \<in> S) [''Q'', ''Z'', ''S'', ''A'']) 2
       [(''Q'', 2 / 3), (''Z'', 0), (''S'', 0), (''A'', 2 / 3)]
       [(''Q'', 2), (''Z'', 1), (''S'', 1), (''A'', 2)]
       [(''Q'', 0), (''Z'', 0), (''S'', 0), (''A'', 0)])
     = {''Q'', ''A'', ''Z''}"
proof -
  let ?tbl = "combined_ranking (\<lambda>S. filter (\<lambda>p. p \<in> S) [''Q'', ''Z'', ''S'', ''A'']) 2
       [(''Q'', 2 / 3), (''Z'', 0), (''S'', 0), (''A'', 2 / 3)]
       [(''Q'', 2), (''Z'', 1), (''S'', 1), (''A'', 2)]
       [(''Q'', 0), (''Z'', 0), (''S'', 0), (''A'', 0)]"
  have t: "?tbl = [\<lparr>Protein = ''Q'', BC_Rank = 1, Deg_Rank = 1, Clust_Rank = 1, Total_Score = 3\<rparr>,
        \<lparr>Protein = ''A'', BC_Rank = 2, Deg_Rank = 2, Clust_Rank = 3, Total_Score = 7\<rparr>,
        \<lparr>Protein = ''Z'', BC_Rank = 3, Deg_Rank = 3, Clust_Rank = 2, Total_Score = 8\<rparr>]"
    by (simp add: combined_ranking_def unique_proteins_def dom_window_ranks top_window_def
      py_sorted_def window_ranks_def dict_of_def combined_row_def dict_get_def Let_def
      enumerate_eq_zip)
  have absent: "''Z'' \<notin> fst ` set (top_window 2 True
           ([(''Q'', 2 / 3), (''Z'', 0), (''S'', 0), (''A'', 2 / 3)] :: (node \<times> real) list))"
    by (simp add: top_window_def py_sorted_def)
  note table = top_n_rank_table[of "(\<lambda>S. filter (\<lambda>p. p \<in> S) [''Q'', ''Z'', ''S'', ''A''])" 2
      "[(''Q'', 2 / 3), (''Z'', 0), (''S'', 0), (''A'', 2 / 3)]"
      "[(''Q'', 2), (''Z'', 1), (''S'', 1), (''A'', 2)]"
      "[(''Q'', 0), (''Z'', 0), (''S'', 0), (''A'', 0)]"]
  have mem: "?tbl ! 2 \<in> set ?tbl" unfolding t by simp
  have prot: "Protein (?tbl ! 2) = ''Z''" unfolding t by simp
  have r3: "BC_Rank (?tbl ! 2) = 2 + 1"
    using bspec[OF conjunct1[OF table] mem] absent unfolding prot by blast
  have srt: "sorted (map Total_Score ?tbl)"
    by (rule conjunct1[OF conjunct2[OF table]])
  have enum: "set ((\<lambda>S. filter (\<lambda>p. p \<in> S) [''Q'', ''Z'', ''S'', ''A''])
     (unique_proteins 2
       [(''Q'', 2 / 3), (''Z'', 0), (''S'', 0), (''A'', 2 / 3)]
       [(''Q'', 2), (''Z'', 1), (''S'', 1), (''A'', 2)]
       [(''Q'', 0), (''Z'', 0), (''S'', 0), (''A'', 0)]))
     = unique_proteins 2
       [(''Q'', 2 / 3), (''Z'', 0), (''S'', 0), (''A'', 2 / 3)]
       [(''Q'', 2), (''Z'', 1), (''S'', 1), (''A'', 2)]
       [(''Q'', 0), (''Z'', 0), (''S'', 0), (''A'', 0)]"
    by (auto simp: unique_proteins_def dom_window_ranks top_window_def py_sorted_def)
  have cov: "Protein ` set ?tbl = {''Q'', ''A'', ''Z''}"
    unfolding t by auto
  show ?thesis
    by (rule conjI[OF t conjI[OF absent conjI[OF r3 conjI[OF srt conjI[OF enum cov]]]]])
qed

section \<open>Rows with the same aggregate score\<close>




section \<open>Which betweenness computation is asked for\<close>








section \<open>What the stochastic-flow scripts keep of the index clusters\<close>

text \<open>
  The scripts translate the index clusters one by one and merge or split nothing: a node
  is in as many communities as there are index clusters that hold its index. Whether the
  communities partition the node set is thus decided by the index clusters that
  \<^verbatim>\<open>mc.get_clusters\<close> returns; clusters that overlap give communities that overlap.
\<close>

lemma collect_map:
  "(\<And>x. x \<in> set xs \<Longrightarrow> f x = Inr (g x)) \<Longrightarrow> collect f xs = Inr (map g xs)"
  by (induction xs) simp_all

lemma length_filter_py_sorted:
  "length (filter P (py_sorted key r xs)) = length (filter P xs)"
proof -
  have "length (filter P (sort_key key ys)) = length (filter P ys)" for ys
    by (simp add: filter_sort)
  then show ?thesis
    by (simp add: py_sorted_def rev_filter[symmetric])
qed

lemma node_in_members:
  assumes "distinct nl" and "\<forall>k \<in> set c. k < length nl" and "i < length nl"
  shows "nl ! i \<in> set (map (\<lambda>k. nl ! k) c) \<longleftrightarrow> i \<in> set c"
  using assms by (auto simp: nth_eq_iff_index_eq)

lemma mcl_communities_keep_multiplicity:
  assumes wf: "\<forall>c \<in> set clusters_indices. \<forall>k \<in> set c. k < length nodes_list"
    and d: "distinct nodes_list"
    and i: "i < length nodes_list"
  shows "\<exists>comms. mcl_communities nodes_list clusters_indices = Inr comms \<and>
           length (filter (\<lambda>C. nodes_list ! i \<in> C) comms) =
           length (filter (\<lambda>c. i \<in> set c) clusters_indices)"
proof -
  let ?cs = "py_sorted length True clusters_indices"
  let ?g = "\<lambda>c. set (map (\<lambda>k. nodes_list ! k) c)"
  have m: "map_sum id set (members_of nodes_list c) = Inr (?g c)" if "c \<in> set ?cs" for c
    using wf that by (auto simp: members_of_def set_py_sorted list_all_iff)
  have c: "mcl_communities nodes_list clusters_indices = Inr (map ?g ?cs)"
    unfolding mcl_communities_def by (rule collect_map) (rule m)
  have "filter (\<lambda>C. nodes_list ! i \<in> C) (map ?g ?cs) =
        map ?g (filter (\<lambda>c. i \<in> set c) ?cs)"
    unfolding filter_map comp_def
    by (rule arg_cong[where f = "map ?g"], rule filter_cong[OF refl])
      (use wf d i in \<open>auto simp: set_py_sorted nth_eq_iff_index_eq\<close>)
  then have "length (filter (\<lambda>C. nodes_list ! i \<in> C) (map ?g ?cs)) =
             length (filter (\<lambda>c. i \<in> set c) clusters_indices)"
    by (simp add: length_filter_py_sorted)
  with c show ?thesis by simp
qed

lemma overlapping_clusters_stay_overlapping:
  "mcl_communities [''A'', ''B'', ''C''] [[0, 1], [1, 2]] = Inr [{''A'', ''B''}, {''B'', ''C''}]"
  by (simp add: mcl_communities_def py_sorted_def members_of_def)

end
